theory Spec2Isabelle
  imports Complex_Main "HOL-Library.Word"
begin

section \<open>Characters and C library routines used by the parser\<close>

text \<open>
  The byte range \<open>[begin, end)\<close> handed to the parser is a \<open>string\<close> \<open>s\<close> (a list of
  characters); a pointer into it is a position \<open>p\<close> with \<open>p \<le> length s\<close>, and the pair of
  pointers \<open>(p, lend)\<close> that the source passes around is the list of the characters between
  them. The loops of the source stop at \<open>end\<close> or at \<open>lend\<close>, but \<open>strncmp\<close> and
  \<open>atoll\<close> (lines 228 and 230) read on until they meet a character that stops them, also
  after \<open>end\<close>. The bytes that follow the range in memory are therefore a second string,
  \<open>after\<close>, and the two calls read \<open>s @ after\<close>. A range that ends its buffer is followed
  by a NUL, which stops both calls: for it \<open>after\<close> is empty.
\<close>

text \<open>C's \<open>isblank\<close> in the "C" locale: space and horizontal tab.\<close>

definition isblank :: "char \<Rightarrow> bool" where
  "isblank c = (c = CHR '' '' \<or> c = CHR 0x09)"

text \<open>C's \<open>isspace\<close> in the "C" locale: space and the control characters 9 to 13.\<close>

definition isspace :: "char \<Rightarrow> bool" where
  "isspace c = (c = CHR '' '' \<or> (9 \<le> (of_char c :: nat) \<and> (of_char c :: nat) \<le> 13))"

definition isdigit :: "char \<Rightarrow> bool" where
  "isdigit c = (48 \<le> (of_char c :: nat) \<and> (of_char c :: nat) \<le> 57)"

text \<open>
  Modelled from the spec: \<open>isdigitchars\<close> of \<open>dmlc/strtonum.h\<close>, which is not among
  the sources. The qid state "advances past its digits"; the characters of a numeric literal
  are the decimal digits, the signs, the decimal point and the exponent markers.
\<close>

definition isdigitchars :: "char \<Rightarrow> bool" where
  "isdigitchars c =
     (isdigit c \<or> c = CHR ''+'' \<or> c = CHR ''-'' \<or> c = CHR ''.'' \<or> c = CHR ''e'' \<or> c = CHR ''E'')"

text \<open>The value of a run of decimal digits, most significant first.\<close>

definition digits_value :: "string \<Rightarrow> nat" where
  "digits_value ds = fold (\<lambda>c n. 10 * n + ((of_char c :: nat) - 48)) ds 0"

text \<open>
  C's \<open>atoll\<close>: leading white space, an optional sign, then decimal digits; the result
  saturates at the bounds of \<open>long long\<close> (as \<open>strtoll\<close> does).
\<close>

definition atoll :: "string \<Rightarrow> int" where
  "atoll cs =
     (let t = dropWhile isspace cs;
          neg = (t \<noteq> [] \<and> hd t = CHR ''-'');
          u = (if t \<noteq> [] \<and> (hd t = CHR ''-'' \<or> hd t = CHR ''+'') then tl t else t);
          n = int (digits_value (takeWhile isdigit u));
          v = (if neg then - n else n)
      in max (- (2 ^ 63)) (min (2 ^ 63 - 1) v))"

text \<open>The characters of the range \<open>[p, e)\<close> of the buffer \<open>s\<close>.\<close>

definition byte_range :: "string \<Rightarrow> nat \<Rightarrow> nat \<Rightarrow> string" where
  "byte_range s p e = take (e - p) (drop p s)"


section \<open>The pair tokenizer (external primitive)\<close>

text \<open>
  \<open>ParsePair<T1, T2>(begin, end, &endptr, v1, v2)\<close> of \<open>dmlc/strtonum.h\<close> is not among
  the sources. The parser is therefore parameterised by it. A call on the range
  \<open>[begin, end)\<close> reports how many of the two fields it found and where it stopped:
  \<open>NoField k\<close> is the return value 0, \<open>OneField k v1\<close> the return value 1 and
  \<open>TwoFields k v1 v2\<close> the return value 2, with \<open>endptr = begin + k\<close>. The output
  parameters \<open>v1\<close> and \<open>v2\<close> are written only for the fields that were found.
\<close>

datatype ('a, 'b) pair_result = NoField nat | OneField nat 'a | TwoFields nat 'a 'b

type_synonym ('a, 'b) tokenizer = "string \<Rightarrow> ('a, 'b) pair_result"



section \<open>The sparse block\<close>

text \<open>
  \<open>RowBlockContainer<IndexType, DType>\<close> (\<open>row_block.h\<close>, not among the sources) with
  the six sequences of the data model. \<open>offset\<close> holds sizes of \<open>index\<close>; the field
  \<open>value\<close> of the source is \<open>value'\<close> here.
\<close>

record ('i, 'v) RowBlockContainer =
  label :: "'v list"
  weight :: "'v list"
  qid :: "64 word list"
  offset :: "nat list"
  index :: "'i list"
  value' :: "'v list"

text \<open>
  Modelled from the spec: \<open>RowBlockContainer::Clear\<close> (\<open>row_block.h\<close>, not among the
  sources). A block is created empty at the start of a pass, with \<open>offset[0] = 0\<close>.
\<close>

definition Clear :: "('i, 'v) RowBlockContainer \<Rightarrow> ('i, 'v) RowBlockContainer" where
  "Clear out = \<lparr>label = [], weight = [], qid = [], offset = [0], index = [], value' = []\<rparr>"


section \<open>The line scanner\<close>

text \<open>
  \<open>IgnoreCommentAndBlank(beg, line_end)\<close>, lines 67 to 84. The loop walks the characters
  of the range; \<open>k\<close> is \<open>std::distance(beg, p)\<close> and \<open>len\<close> is
  \<open>std::distance(beg, line_end)\<close>.
\<close>

fun IgnoreCommentAndBlank_loop :: "string \<Rightarrow> nat \<Rightarrow> nat \<Rightarrow> nat" where
  "IgnoreCommentAndBlank_loop [] k len = len"
| "IgnoreCommentAndBlank_loop (c # cs) k len =
     (if c = CHR ''#'' then len
      else if \<not> isblank c then k
      else IgnoreCommentAndBlank_loop cs (Suc k) len)"

definition IgnoreCommentAndBlank :: "string \<Rightarrow> nat" where
  "IgnoreCommentAndBlank rng = IgnoreCommentAndBlank_loop rng 0 (length rng)"


section \<open>The parse pass: \<open>LibSVMParser::ParseBlock\<close>\<close>

text \<open>
  Line 202: \<open>while (lend != end && *lend != '\n' && *lend != '\r') ++lend\<close>. The first
  argument holds the characters from \<open>lend\<close> to \<open>end\<close>.
\<close>

fun find_line_end :: "string \<Rightarrow> nat \<Rightarrow> nat" where
  "find_line_end [] lend = lend"
| "find_line_end (c # cs) lend =
     (if c \<noteq> CHR 0x0A \<and> c \<noteq> CHR 0x0D then find_line_end cs (Suc lend) else lend)"

text \<open>
  Line 227: \<open>while (p != end && *p == ' ') ++p\<close>. The first argument holds the
  characters from \<open>p\<close> to \<open>end\<close>.
\<close>

fun skip_spaces :: "string \<Rightarrow> nat \<Rightarrow> nat" where
  "skip_spaces [] p = p"
| "skip_spaces (c # cs) p = (if c = CHR '' '' then skip_spaces cs (Suc p) else p)"

text \<open>
  Line 231: \<open>while (p != lend && isdigitchars(*p)) ++p\<close>. The first argument holds the
  characters from \<open>p\<close> to \<open>lend\<close>.
\<close>

fun skip_digitchars :: "string \<Rightarrow> nat \<Rightarrow> nat" where
  "skip_digitchars [] p = p"
| "skip_digitchars (c # cs) p = (if isdigitchars c then skip_digitchars cs (Suc p) else p)"

text \<open>
  Lines 216 to 223: the weight is pushed when the label pair had two fields, the size of
  \<open>index\<close> is pushed on \<open>offset\<close> for every record but the first, and the label is
  pushed.
\<close>

definition push_label ::
  "'v \<Rightarrow> 'v option \<Rightarrow> ('i, 'v) RowBlockContainer \<Rightarrow> ('i, 'v) RowBlockContainer" where
  "push_label l w out =
     (let out1 = (case w of Some x \<Rightarrow> out\<lparr>weight := weight out @ [x]\<rparr> | None \<Rightarrow> out);
          out2 = (if length (label out1) \<noteq> 0
                  then out1\<lparr>offset := offset out1 @ [length (index out1)]\<rparr> else out1)
      in out2\<lparr>label := label out2 @ [l]\<rparr>)"

text \<open>
  Lines 225 to 233: \<open>q\<close> is where the label pair stopped. The result is the position
  \<open>p\<close> from which the features are read, and the block. \<open>strncmp(p, "qid:", 4)\<close> and
  \<open>atoll(p)\<close> read the memory from \<open>p\<close> on, past \<open>lend\<close> and past \<open>end\<close>:
  \<open>atoll\<close> skips white space, line terminators included, so the digits it reads can be
  those of the next line or of the bytes after the range. When the comparison succeeds
  across \<open>lend\<close>, \<open>p\<close> passes \<open>lend\<close>; the feature loop, which tests \<open>p != lend\<close>,
  then has no result (lemma \<open>feature_loop_past_line_end\<close>).
\<close>

definition parse_qid_in ::
  "string \<Rightarrow> string \<Rightarrow> nat \<Rightarrow> nat \<Rightarrow> ('i, 'v) RowBlockContainer \<Rightarrow>
   nat \<times> ('i, 'v) RowBlockContainer" where
  "parse_qid_in s after lend q out =
     (let p = skip_spaces (drop q s) q in
      if p \<noteq> lend \<and> take 4 (drop p (s @ after)) = ''qid:''
      then let p4 = p + 4;
               id = (word_of_int (atoll (drop p4 (s @ after))) :: 64 word);
               p5 = skip_digitchars (byte_range s p4 lend) p4
           in (p5, out\<lparr>qid := qid out @ [id]\<rparr>)
      else (p, out))"

text \<open>
  Lines 235 to 254, the loop over the features of one line. \<open>mn\<close> is
  \<open>min_feat_id\<close>. A feature with one field pushes its id and no value (line 249).
\<close>

partial_function (option) feature_loop ::
  "('i word, 'v) tokenizer \<Rightarrow> string \<Rightarrow> nat \<Rightarrow> nat \<Rightarrow> ('i word, 'v) RowBlockContainer \<Rightarrow> 'i::len word \<Rightarrow>
   (('i word, 'v) RowBlockContainer \<times> 'i word) option" where
  "feature_loop ppf s lend p out mn =
    (if p = lend then Some (out, mn)
     else let p1 = p + IgnoreCommentAndBlank (byte_range s p lend) in
       case ppf (byte_range s p1 lend) of
         NoField k \<Rightarrow> feature_loop ppf s lend (p1 + k) out mn
       | OneField k featureId \<Rightarrow>
           feature_loop ppf s lend (p1 + k)
             (out\<lparr>index := index out @ [featureId]\<rparr>) (min featureId mn)
       | TwoFields k featureId v \<Rightarrow>
           feature_loop ppf s lend (p1 + k)
             (out\<lparr>index := index out @ [featureId], value' := value' out @ [v]\<rparr>)
             (min featureId mn))"

text \<open>
  Lines 199 to 257, the loop over the lines. \<open>ppl\<close> is \<open>ParsePair<real_t, real_t>\<close>
  and \<open>ppf\<close> is \<open>ParsePair<IndexType, real_t>\<close>; \<open>end\<close> is \<open>length s\<close>.
\<close>

partial_function (option) line_loop_in ::
  "('v, 'v) tokenizer \<Rightarrow> ('i word, 'v) tokenizer \<Rightarrow> string \<Rightarrow> string \<Rightarrow> nat \<Rightarrow>
   ('i word, 'v) RowBlockContainer \<Rightarrow> 'i::len word \<Rightarrow>
   (('i word, 'v) RowBlockContainer \<times> 'i word) option" where
  "line_loop_in ppl ppf s after lbegin out mn =
    (if lbegin = length s then Some (out, mn)
     else let lend = find_line_end (drop (lbegin + 1) s) (lbegin + 1);
              p = lbegin + IgnoreCommentAndBlank (byte_range s lbegin lend) in
       case ppl (byte_range s p lend) of
         NoField k \<Rightarrow> line_loop_in ppl ppf s after lend out mn
       | OneField k l \<Rightarrow>
           (case parse_qid_in s after lend (p + k) (push_label l None out) of (p', out') \<Rightarrow>
              Option.bind (feature_loop ppf s lend p' out' mn)
                (\<lambda>(out'', mn'). line_loop_in ppl ppf s after lend out'' mn'))
       | TwoFields k l w \<Rightarrow>
           (case parse_qid_in s after lend (p + k) (push_label l (Some w) out) of (p', out') \<Rightarrow>
              Option.bind (feature_loop ppf s lend p' out' mn)
                (\<lambda>(out'', mn'). line_loop_in ppl ppf s after lend out'' mn')))"

text \<open>The two loops are evaluated by their defining equations.\<close>

declare feature_loop.simps [code] line_loop_in.simps [code]

text \<open>
  The fatal conditions of the file: the \<open>CHECK\<close> of line 261, and the three of the draft
  state machine below (the \<open>LOG(FATAL)\<close> of lines 125 and 133, of lines 150 and 159, and
  the \<open>CHECK_EQ\<close> of line 172).
\<close>

datatype error = CheckFailed | WeightNotForAllRows | QidNotForAllRows | IncompletePair

text \<open>Lines 266 to 272: the indexing mode. \<open>--e\<close> on the unsigned \<open>IndexType\<close> wraps.\<close>

definition resolve_indexing ::
  "int \<Rightarrow> 'i::len word \<Rightarrow> ('i word, 'v) RowBlockContainer \<Rightarrow> ('i word, 'v) RowBlockContainer" where
  "resolve_indexing indexing_mode mn out =
     (if indexing_mode > 0 \<or> (indexing_mode < 0 \<and> index out \<noteq> [] \<and> mn > 0)
      then out\<lparr>index := map (\<lambda>e. e - 1) (index out)\<rparr>
      else out)"

text \<open>
  Lines 189 to 273, on the range \<open>s\<close> followed in memory by \<open>after\<close>. The result is
  \<open>None\<close> when the pass does not return, \<open>Some (Inl e)\<close> when it aborts and
  \<open>Some (Inr b)\<close> when it completes with the block \<open>b\<close>. \<open>min_feat_id\<close> starts at the
  largest value of \<open>IndexType\<close>.
\<close>

definition ParseBlock_in ::
  "('v, 'v) tokenizer \<Rightarrow> ('i word, 'v) tokenizer \<Rightarrow> int \<Rightarrow> string \<Rightarrow> string \<Rightarrow>
   ('i word, 'v) RowBlockContainer \<Rightarrow> (error + ('i::len word, 'v) RowBlockContainer) option" where
  "ParseBlock_in ppl ppf indexing_mode s after out =
     (case line_loop_in ppl ppf s after 0 (Clear out) (- 1) of
        None \<Rightarrow> None
      | Some (out1, min_feat_id) \<Rightarrow>
          let out2 = (if length (label out1) \<noteq> 0
                      then out1\<lparr>offset := offset out1 @ [length (index out1)]\<rparr> else out1)
          in if length (label out2) + 1 \<noteq> length (offset out2) then Some (Inl CheckFailed)
             else Some (Inr (resolve_indexing indexing_mode min_feat_id out2)))"

text \<open>
  The pass on a range that ends its buffer: a NUL follows it, so \<open>strncmp\<close> and
  \<open>atoll\<close> see no byte after \<open>end\<close>. \<open>parse_qid\<close>, \<open>line_loop\<close> and \<open>ParseBlock\<close>
  are lines 225 to 233, 199 to 257 and 189 to 273 for such a range.
\<close>

definition parse_qid ::
  "string \<Rightarrow> nat \<Rightarrow> nat \<Rightarrow> ('i, 'v) RowBlockContainer \<Rightarrow> nat \<times> ('i, 'v) RowBlockContainer" where
  "parse_qid s lend q out = parse_qid_in s [] lend q out"

definition line_loop ::
  "('v, 'v) tokenizer \<Rightarrow> ('i word, 'v) tokenizer \<Rightarrow> string \<Rightarrow> nat \<Rightarrow>
   ('i word, 'v) RowBlockContainer \<Rightarrow> 'i::len word \<Rightarrow>
   (('i word, 'v) RowBlockContainer \<times> 'i word) option" where
  "line_loop ppl ppf s lbegin out mn = line_loop_in ppl ppf s [] lbegin out mn"

definition ParseBlock ::
  "('v, 'v) tokenizer \<Rightarrow> ('i word, 'v) tokenizer \<Rightarrow> int \<Rightarrow> string \<Rightarrow>
   ('i word, 'v) RowBlockContainer \<Rightarrow> (error + ('i::len word, 'v) RowBlockContainer) option" where
  "ParseBlock ppl ppf indexing_mode s out = ParseBlock_in ppl ppf indexing_mode s [] out"


section \<open>The checks of the draft state machine\<close>

text \<open>
  The free function \<open>ParseBlock\<close> of lines 94 to 187 is a draft of the parser as a state
  machine. Nothing calls it and its \<open>while (true)\<close> has no exit, so a pass never runs it;
  the pass is the member function above. The draft holds three checks the member function
  does not have. They are given here as the source writes them, on the return value \<open>r\<close> of
  the tokenizer and on the flags \<open>has_weight\<close> and \<open>has_qid\<close>.
\<close>

datatype HasField = kUnknown | kTrue | kFalse

text \<open>Lines 123 to 138, in the state \<open>kLabel\<close>: the result is the new \<open>has_weight\<close>.\<close>

definition draft_weight_check :: "int \<Rightarrow> HasField \<Rightarrow> error + HasField" where
  "draft_weight_check r has_weight =
     (if r = 2
      then (if has_weight = kFalse then Inl WeightNotForAllRows
            else Inr (if has_weight = kUnknown then kTrue else has_weight))
      else (if has_weight = kTrue then Inl WeightNotForAllRows
            else Inr (if has_weight = kUnknown then kFalse else has_weight)))"

text \<open>
  Lines 148 to 161, in the state \<open>kQid\<close>: \<open>is_qid\<close> is
  \<open>strncmp(p, "qid:", 4) == 0\<close>, and the result is the new \<open>has_qid\<close>.
\<close>

definition draft_qid_check :: "bool \<Rightarrow> HasField \<Rightarrow> error + HasField" where
  "draft_qid_check is_qid has_qid =
     (if is_qid
      then (if has_qid = kFalse then Inl QidNotForAllRows else Inr kTrue)
      else (if has_qid = kTrue then Inl QidNotForAllRows else Inr has_qid))"

text \<open>Line 172, in the state \<open>kFeature\<close>: \<open>CHECK_EQ(r, 2)\<close>.\<close>

definition draft_feature_check :: "int \<Rightarrow> error + unit" where
  "draft_feature_check r = (if r = 2 then Inr () else Inl IncompletePair)"


section \<open>A pair tokenizer for the scenarios\<close>

text \<open>
  Modelled from the spec: \<open>ParsePair\<close> of \<open>dmlc/strtonum.h\<close>, not among the sources.
  It parses one \<open><key>[:<value>]\<close> token from a range, reporting how many of the two
  fields were present and where parsing stopped: characters that cannot be part of a
  number are skipped, the first field is the run of numeric characters that follows, and
  the second is the run after a colon (blanks may stand before the colon). \<open>conv1\<close> and
  \<open>conv2\<close> turn the text of a field into its value.
\<close>

definition ParsePair :: "(string \<Rightarrow> 'a) \<Rightarrow> (string \<Rightarrow> 'b) \<Rightarrow> ('a, 'b) tokenizer" where
  "ParsePair conv1 conv2 rng =
     (let p = length (takeWhile (\<lambda>c. \<not> isdigitchars c) rng) in
      if p = length rng then NoField (length rng)
      else let tok1 = takeWhile isdigitchars (drop p rng);
               q = p + length tok1;
               p2 = q + length (takeWhile isblank (drop q rng)) in
        if p2 = length rng \<or> rng ! p2 \<noteq> CHR '':'' then OneField p2 (conv1 tok1)
        else let p3 = Suc p2 + length (takeWhile (\<lambda>c. \<not> isdigitchars c) (drop (Suc p2) rng));
                 tok2 = takeWhile isdigitchars (drop p3 rng)
             in TwoFields (p3 + length tok2) (conv1 tok1) (conv2 tok2))"

text \<open>
  Modelled from the spec: the value of a floating-point literal (label, weight, value), as
  the exact rational the decimal text denotes: an optional sign, digits, an optional
  fraction and an optional exponent. Rounding to \<open>real_t\<close> is not modelled.
\<close>

definition ParseReal :: "string \<Rightarrow> rat" where
  "ParseReal tok =
     (let neg = (tok \<noteq> [] \<and> hd tok = CHR ''-'');
          t = (if tok \<noteq> [] \<and> (hd tok = CHR ''-'' \<or> hd tok = CHR ''+'') then tl tok else tok);
          ip = takeWhile isdigit t;
          t1 = drop (length ip) t;
          fp = (if t1 \<noteq> [] \<and> hd t1 = CHR ''.'' then takeWhile isdigit (tl t1) else []);
          t2 = (if t1 \<noteq> [] \<and> hd t1 = CHR ''.'' then drop (Suc (length fp)) t1 else t1);
          m = (of_nat (digits_value (ip @ fp)) :: rat) / 10 ^ length fp;
          ex = (if t2 \<noteq> [] \<and> (hd t2 = CHR ''e'' \<or> hd t2 = CHR ''E'') then atoll (tl t2) else 0);
          v = (if 0 \<le> ex then m * 10 ^ nat ex else m / 10 ^ nat (- ex))
      in if neg then - v else v)"

text \<open>
  Modelled from the spec: the value of a feature id, an integer literal: the leading
  decimal digits, reduced to the width of \<open>IndexType\<close>.
\<close>

definition ParseIndex :: "string \<Rightarrow> 'i::len word" where
  "ParseIndex tok = word_of_nat (digits_value (takeWhile isdigit tok))"


text \<open>
  The two instances the parser uses, \<open>ParsePair<real_t, real_t>\<close> for the label and
  \<open>ParsePair<IndexType, real_t>\<close> for a feature, with a 32-bit \<open>IndexType\<close>.
\<close>

definition label_tokenizer :: "(rat, rat) tokenizer" where
  "label_tokenizer = ParsePair ParseReal ParseReal"

definition feature_tokenizer :: "(32 word, rat) tokenizer" where
  "feature_tokenizer = ParsePair ParseIndex ParseReal"

text \<open>
  Modelled from the spec: a block as it is created, empty, before a pass
  (\<open>row_block.h\<close> is not among the sources).
\<close>

definition new_container :: "(32 word, rat) RowBlockContainer" where
  "new_container = \<lparr>label = [], weight = [], qid = [], offset = [0], index = [], value' = []\<rparr>"


section \<open>The invariant of the pass\<close>


section \<open>The pass on a range that ends its buffer\<close>


lemma line_loop_eq:
  "line_loop ppl ppf s lbegin out mn =
    (if lbegin = length s then Some (out, mn)
     else let lend = find_line_end (drop (lbegin + 1) s) (lbegin + 1);
              p = lbegin + IgnoreCommentAndBlank (byte_range s lbegin lend) in
       case ppl (byte_range s p lend) of
         NoField k \<Rightarrow> line_loop ppl ppf s lend out mn
       | OneField k l \<Rightarrow>
           (case parse_qid s lend (p + k) (push_label l None out) of (p', out') \<Rightarrow>
              Option.bind (feature_loop ppf s lend p' out' mn)
                (\<lambda>(out'', mn'). line_loop ppl ppf s lend out'' mn'))
       | TwoFields k l w \<Rightarrow>
           (case parse_qid s lend (p + k) (push_label l (Some w) out) of (p', out') \<Rightarrow>
              Option.bind (feature_loop ppf s lend p' out' mn)
                (\<lambda>(out'', mn'). line_loop ppl ppf s lend out'' mn')))"
  unfolding line_loop_def [abs_def] parse_qid_def [abs_def]
  by (rule line_loop_in.simps)

lemma ParseBlock_eq:
  "ParseBlock ppl ppf indexing_mode s out =
     (case line_loop ppl ppf s 0 (Clear out) (- 1) of
        None \<Rightarrow> None
      | Some (out1, min_feat_id) \<Rightarrow>
          let out2 = (if length (label out1) \<noteq> 0
                      then out1\<lparr>offset := offset out1 @ [length (index out1)]\<rparr> else out1)
          in if length (label out2) + 1 \<noteq> length (offset out2) then Some (Inl CheckFailed)
             else Some (Inr (resolve_indexing indexing_mode min_feat_id out2)))"
  by (simp add: ParseBlock_def ParseBlock_in_def line_loop_def)

text \<open>
  Once the position has passed the end of the line the feature loop does not return: the
  position never decreases, and the loop stops only when it equals \<open>lend\<close>.
\<close>

lemma feature_loop_past_line_end:
  assumes "feature_loop ppf s lend p out mn = Some y"
  shows "p \<le> lend"
proof (rule feature_loop.raw_induct [where P = "\<lambda>ppf s lend p out mn y. p \<le> lend", OF _ assms],
    goal_cases)
  case (1 fl ppf s lend p out mn y)
  show ?case
  proof (cases "p = lend")
    case True
    then show ?thesis by simp
  next
    case False
    let ?p1 = "p + IgnoreCommentAndBlank (byte_range s p lend)"
    have "\<exists>k out' mn'. fl ppf s lend (?p1 + k) out' mn' = Some y"
      using 1(2) False
      by (auto simp add: Let_def split: pair_result.splits)
    then obtain k out' mn' where "fl ppf s lend (?p1 + k) out' mn' = Some y" by blast
    then have "?p1 + k \<le> lend" by (rule 1(1))
    then show ?thesis by simp
  qed
qed

section \<open>The line scanner: properties\<close>

lemma IgnoreCommentAndBlank_loop_eq:
  "IgnoreCommentAndBlank_loop cs k len =
     (case dropWhile isblank cs of
        [] \<Rightarrow> len
      | c # rest \<Rightarrow> if c = CHR ''#'' then len else k + length (takeWhile isblank cs))"
proof (induction cs arbitrary: k)
  case Nil
  show ?case by simp
next
  case (Cons c cs)
  have nb: "\<not> isblank (CHR ''#'')" by (simp add: isblank_def)
  show ?case
  proof (cases "c = CHR ''#''")
    case True
    then show ?thesis using nb by simp
  next
    case False
    then show ?thesis using Cons.IH by (cases "isblank c") (simp_all cong: list.case_cong if_cong)
  qed
qed


text \<open>
  Claim C9. The line scanner returns the full length of the range when the range holds
  only blanks or when a \<open>#\<close> stands before any other non-blank character, and
  otherwise the offset of the first non-blank character, which is then not a comment marker.
  Applied again from the position it returned, it advances by zero.
\<close>

theorem line_scanner:
  "IgnoreCommentAndBlank rng =
     (case dropWhile isblank rng of
        [] \<Rightarrow> length rng
      | c # rest \<Rightarrow> if c = CHR ''#'' then length rng else length (takeWhile isblank rng))
   \<and> IgnoreCommentAndBlank (drop (IgnoreCommentAndBlank rng) rng) = 0"
proof
  show eq: "IgnoreCommentAndBlank rng =
     (case dropWhile isblank rng of
        [] \<Rightarrow> length rng
      | c # rest \<Rightarrow> if c = CHR ''#'' then length rng else length (takeWhile isblank rng))"
    by (simp add: IgnoreCommentAndBlank_def IgnoreCommentAndBlank_loop_eq cong: list.case_cong if_cong)
  show "IgnoreCommentAndBlank (drop (IgnoreCommentAndBlank rng) rng) = 0"
  proof (cases "dropWhile isblank rng")
    case Nil
    have "IgnoreCommentAndBlank rng = length rng"
      by (subst eq) (simp only: Nil list.case)
    then show ?thesis by (simp add: IgnoreCommentAndBlank_def)
  next
    case (Cons c rest)
    show ?thesis
    proof (cases "c = CHR ''#''")
      case True
      have "IgnoreCommentAndBlank rng = length rng"
        by (subst eq) (simp add: Cons True)
      then show ?thesis by (simp add: IgnoreCommentAndBlank_def)
    next
      case False
      have r: "IgnoreCommentAndBlank rng = length (takeWhile isblank rng)"
        by (subst eq) (simp add: Cons False)
      have nb: "\<not> isblank c"
        using Cons by (metis hd_dropWhile list.sel(1) list.distinct(1))
      have d: "drop (length (takeWhile isblank rng)) rng = c # rest"
        using Cons by (simp add: dropWhile_eq_drop [symmetric])
      have "IgnoreCommentAndBlank (c # rest) = 0"
        using False nb by (simp add: IgnoreCommentAndBlank_def)
      then show ?thesis by (simp add: r d)
    qed
  qed
qed

section \<open>Positions stay inside the line\<close>










section \<open>The feature loop returns\<close>



section \<open>The line loop returns and keeps the invariant\<close>






section \<open>One iteration of each loop\<close>

lemma feature_loop_done: "feature_loop ppf s lend lend out mn = Some (out, mn)"
  by (subst feature_loop.simps) simp

lemma feature_loop_none:
  assumes "p \<noteq> lend" and "p + IgnoreCommentAndBlank (byte_range s p lend) = p1"
    and "byte_range s p1 lend = rng" and "ppf rng = NoField k"
  shows "feature_loop ppf s lend p out mn = feature_loop ppf s lend (p1 + k) out mn"
  by (subst feature_loop.simps) (simp only: assms if_False Let_def pair_result.case)

lemma feature_loop_one:
  assumes "p \<noteq> lend" and "p + IgnoreCommentAndBlank (byte_range s p lend) = p1"
    and "byte_range s p1 lend = rng" and "ppf rng = OneField k featureId"
  shows "feature_loop ppf s lend p out mn =
     feature_loop ppf s lend (p1 + k) (out\<lparr>index := index out @ [featureId]\<rparr>) (min featureId mn)"
  by (subst feature_loop.simps) (simp only: assms if_False Let_def pair_result.case)

lemma feature_loop_two:
  assumes "p \<noteq> lend" and "p + IgnoreCommentAndBlank (byte_range s p lend) = p1"
    and "byte_range s p1 lend = rng" and "ppf rng = TwoFields k featureId v"
  shows "feature_loop ppf s lend p out mn =
     feature_loop ppf s lend (p1 + k)
       (out\<lparr>index := index out @ [featureId], value' := value' out @ [v]\<rparr>) (min featureId mn)"
  by (subst feature_loop.simps) (simp only: assms if_False Let_def pair_result.case)

lemma line_loop_done: "line_loop ppl ppf s (length s) out mn = Some (out, mn)"
  by (subst line_loop_eq) simp

lemma line_loop_none:
  assumes "lbegin \<noteq> length s"
    and "find_line_end (drop (lbegin + 1) s) (lbegin + 1) = lend"
    and "lbegin + IgnoreCommentAndBlank (byte_range s lbegin lend) = p"
    and "byte_range s p lend = rng" and "ppl rng = NoField k"
  shows "line_loop ppl ppf s lbegin out mn = line_loop ppl ppf s lend out mn"
  by (subst line_loop_eq) (simp only: assms if_False Let_def pair_result.case)

lemma line_loop_one:
  assumes "lbegin \<noteq> length s"
    and "find_line_end (drop (lbegin + 1) s) (lbegin + 1) = lend"
    and "lbegin + IgnoreCommentAndBlank (byte_range s lbegin lend) = p"
    and "byte_range s p lend = rng" and "ppl rng = OneField k l"
    and "parse_qid s lend (p + k) (push_label l None out) = (p', out')"
    and "feature_loop ppf s lend p' out' mn = Some (out'', mn')"
  shows "line_loop ppl ppf s lbegin out mn = line_loop ppl ppf s lend out'' mn'"
  by (subst line_loop_eq)
    (simp only: assms if_False Let_def pair_result.case prod.case Option.bind.simps)

lemma line_loop_two:
  assumes "lbegin \<noteq> length s"
    and "find_line_end (drop (lbegin + 1) s) (lbegin + 1) = lend"
    and "lbegin + IgnoreCommentAndBlank (byte_range s lbegin lend) = p"
    and "byte_range s p lend = rng" and "ppl rng = TwoFields k l w"
    and "parse_qid s lend (p + k) (push_label l (Some w) out) = (p', out')"
    and "feature_loop ppf s lend p' out' mn = Some (out'', mn')"
  shows "line_loop ppl ppf s lbegin out mn = line_loop ppl ppf s lend out'' mn'"
  by (subst line_loop_eq)
    (simp only: assms if_False Let_def pair_result.case prod.case Option.bind.simps)

section \<open>The scenario tokenizer meets the contract\<close>





section \<open>The completed pass\<close>







text \<open>
  The pass clears the container first (line 194), so its outcome does not depend on what
  the container held before.
\<close>

lemma pass_ignores_prior_contents:
  "ParseBlock_in ppl ppf indexing_mode s after out1 =
   ParseBlock_in ppl ppf indexing_mode s after out2"
  by (simp add: ParseBlock_in_def Clear_def)

section \<open>Scenarios\<close>

text \<open>
  Claim C7. The single line \<open>1:2.0 qid:7 1:0.5\<close> followed by a newline, parsed with the
  default indexing mode 0: when the tokenizer reads the label pair as the two fields 1 and
  2.0 and the feature token as the two fields 1 and 0.5, the block has the label 1, the
  weight 2.0, the query id 7 (the unsigned integer after the prefix \<open>qid:\<close>), the feature
  id 1 and the value 0.5.
\<close>

theorem scenario_B:
  fixes ppl :: "(rat, rat) tokenizer" and ppf :: "('i::len word, rat) tokenizer"
  assumes l1: "ppl ''1:2.0 qid:7 1:0.5'' = TwoFields 5 1 2"
    and f1: "ppf ''1:0.5'' = TwoFields 5 1 (1 / 2)"
    and l2: "ppl ''\<newline>'' = NoField 1"
  shows "ParseBlock ppl ppf 0 ''1:2.0 qid:7 1:0.5\<newline>'' out =
    Some (Inr \<lparr>label = [1], weight = [2], qid = [7], offset = [0, 1], index = [1],
                value' = [1 / 2]\<rparr>)"
proof -
  let ?s = "''1:2.0 qid:7 1:0.5\<newline>''"
  let ?b0 = "\<lparr>label = [], weight = [], qid = [], offset = [0], index = [],
               value' = []\<rparr> :: ('i word, rat) RowBlockContainer"
  let ?b1 = "\<lparr>label = [1], weight = [2], qid = [7], offset = [0], index = [],
               value' = []\<rparr> :: ('i word, rat) RowBlockContainer"
  let ?b2 = "\<lparr>label = [1], weight = [2], qid = [7], offset = [0], index = [1],
               value' = [1 / 2]\<rparr> :: ('i word, rat) RowBlockContainer"
  have n0: "(0::nat) \<noteq> length ?s" and n17: "(17::nat) \<noteq> length ?s"
    and n11: "(11::nat) \<noteq> 17" and len: "length ?s = 18"
    by simp_all
  have e0: "find_line_end (drop (0 + 1) ?s) (0 + 1) = 17" by code_simp
  have p0: "0 + IgnoreCommentAndBlank (byte_range ?s 0 17) = 0" by code_simp
  have r0: "byte_range ?s 0 17 = ''1:2.0 qid:7 1:0.5''" by code_simp
  have q0: "parse_qid ?s 17 (0 + 5) (push_label 1 (Some 2) ?b0) = (11, ?b1)" by code_simp
  have p1: "11 + IgnoreCommentAndBlank (byte_range ?s 11 17) = 12" by code_simp
  have r1: "byte_range ?s 12 17 = ''1:0.5''" by code_simp
  have e1: "find_line_end (drop (17 + 1) ?s) (17 + 1) = 18" by code_simp
  have p2: "17 + IgnoreCommentAndBlank (byte_range ?s 17 18) = 17" by code_simp
  have r2: "byte_range ?s 17 18 = ''\<newline>''" by code_simp
  have "feature_loop ppf ?s 17 11 ?b1 (- 1) = feature_loop ppf ?s 17 (12 + 5) ?b2 (min 1 (- 1))"
    using feature_loop_two [where ppf = ppf, OF n11 p1 r1 f1, of ?b1 "- 1"] by simp
  then have f: "feature_loop ppf ?s 17 11 ?b1 (- 1) = Some (?b2, min 1 (- 1))"
    by (simp add: feature_loop_done)
  have "line_loop ppl ppf ?s 0 ?b0 (- 1) = line_loop ppl ppf ?s 17 ?b2 (min 1 (- 1))"
    by (rule line_loop_two [where ppl = ppl and ppf = ppf, OF n0 e0 p0 r0 l1 q0 f])
  also have "\<dots> = line_loop ppl ppf ?s 18 ?b2 (min 1 (- 1))"
    by (rule line_loop_none [where ppl = ppl and ppf = ppf, OF n17 e1 p2 r2 l2])
  also have "\<dots> = Some (?b2, min 1 (- 1))"
    using line_loop_done [of ppl ppf ?s ?b2] by (simp only: len)
  finally show ?thesis by (simp add: ParseBlock_eq Clear_def resolve_indexing_def)
qed

theorem scenario_B_witness:
  "ParseBlock label_tokenizer feature_tokenizer 0 ''1:2.0 qid:7 1:0.5\<newline>'' new_container =
    Some (Inr \<lparr>label = [1], weight = [2], qid = [7], offset = [0, 1], index = [1],
                value' = [1 / 2]\<rparr>)"
  by (rule scenario_B; code_simp)

text \<open>
  Claim C8, where the code diverges. A comment-only line that is not the first line of the
  range is not skipped. The range of a line starts at the terminator of the line before it
  (line 256 sets \<open>lbegin = lend\<close>), a newline is not a blank, so the line scanner returns
  0 at line 208 and the tokenizer is given the whole line, comment marker included. When
  the tokenizer finds the number 5 in it, the comment line \<open># 5\<close> becomes a record with
  the label 5.
\<close>

theorem comment_line_reaches_tokenizer:
  fixes ppl :: "(rat, rat) tokenizer" and ppf :: "('i::len word, rat) tokenizer"
  assumes l1: "ppl ''1 1:1.0'' = OneField 2 1"
    and f1: "ppf ''1:1.0'' = TwoFields 5 1 1"
    and l2: "ppl ''\<newline># 5'' = OneField 4 5"
    and l3: "ppl ''\<newline>'' = NoField 1"
  shows "ParseBlock ppl ppf 0 ''1 1:1.0\<newline># 5\<newline>'' out =
    Some (Inr \<lparr>label = [1, 5], weight = [], qid = [], offset = [0, 1, 1], index = [1],
                value' = [1]\<rparr>)"
proof -
  let ?s = "''1 1:1.0\<newline># 5\<newline>''"
  let ?b0 = "\<lparr>label = [], weight = [], qid = [], offset = [0], index = [],
               value' = []\<rparr> :: ('i word, rat) RowBlockContainer"
  let ?b1 = "\<lparr>label = [1], weight = [], qid = [], offset = [0], index = [],
               value' = []\<rparr> :: ('i word, rat) RowBlockContainer"
  let ?b2 = "\<lparr>label = [1], weight = [], qid = [], offset = [0], index = [1],
               value' = [1]\<rparr> :: ('i word, rat) RowBlockContainer"
  let ?b3 = "\<lparr>label = [1, 5], weight = [], qid = [], offset = [0, 1], index = [1],
               value' = [1]\<rparr> :: ('i word, rat) RowBlockContainer"
  let ?mn = "min 1 (- 1) :: 'i word"
  have n0: "(0::nat) \<noteq> length ?s" and n7: "(7::nat) \<noteq> length ?s"
    and n11: "(11::nat) \<noteq> length ?s" and n2: "(2::nat) \<noteq> 7" and len: "length ?s = 12"
    by simp_all
  have e0: "find_line_end (drop (0 + 1) ?s) (0 + 1) = 7" by code_simp
  have p0: "0 + IgnoreCommentAndBlank (byte_range ?s 0 7) = 0" by code_simp
  have r0: "byte_range ?s 0 7 = ''1 1:1.0''" by code_simp
  have q0: "parse_qid ?s 7 (0 + 2) (push_label 1 None ?b0) = (2, ?b1)" by code_simp
  have p1: "2 + IgnoreCommentAndBlank (byte_range ?s 2 7) = 2" by code_simp
  have r1: "byte_range ?s 2 7 = ''1:1.0''" by code_simp
  have e1: "find_line_end (drop (7 + 1) ?s) (7 + 1) = 11" by code_simp
  have p2: "7 + IgnoreCommentAndBlank (byte_range ?s 7 11) = 7" by code_simp
  have r2: "byte_range ?s 7 11 = ''\<newline># 5''" by code_simp
  have q2: "parse_qid ?s 11 (7 + 4) (push_label 5 None ?b2) = (11, ?b3)" by code_simp
  have e2: "find_line_end (drop (11 + 1) ?s) (11 + 1) = 12" by code_simp
  have p3: "11 + IgnoreCommentAndBlank (byte_range ?s 11 12) = 11" by code_simp
  have r3: "byte_range ?s 11 12 = ''\<newline>''" by code_simp
  have "feature_loop ppf ?s 7 2 ?b1 (- 1) = feature_loop ppf ?s 7 (2 + 5) ?b2 ?mn"
    using feature_loop_two [where ppf = ppf, OF n2 p1 r1 f1, of ?b1 "- 1"] by simp
  then have f: "feature_loop ppf ?s 7 2 ?b1 (- 1) = Some (?b2, ?mn)"
    by (simp add: feature_loop_done)
  have f2: "feature_loop ppf ?s 11 11 ?b3 ?mn = Some (?b3, ?mn)"
    by (rule feature_loop_done)
  have "line_loop ppl ppf ?s 0 ?b0 (- 1) = line_loop ppl ppf ?s 7 ?b2 ?mn"
    by (rule line_loop_one [where ppl = ppl and ppf = ppf, OF n0 e0 p0 r0 l1 q0 f])
  also have "\<dots> = line_loop ppl ppf ?s 11 ?b3 ?mn"
    by (rule line_loop_one [where ppl = ppl and ppf = ppf, OF n7 e1 p2 r2 l2 q2 f2])
  also have "\<dots> = line_loop ppl ppf ?s 12 ?b3 ?mn"
    by (rule line_loop_none [where ppl = ppl and ppf = ppf, OF n11 e2 p3 r3 l3])
  also have "\<dots> = Some (?b3, ?mn)"
    using line_loop_done [of ppl ppf ?s ?b3] by (simp only: len)
  finally show ?thesis by (simp add: ParseBlock_eq Clear_def resolve_indexing_def)
qed

theorem comment_line_reaches_tokenizer_witness:
  "ParseBlock label_tokenizer feature_tokenizer 0 ''1 1:1.0\<newline># 5\<newline>'' new_container =
    Some (Inr \<lparr>label = [1, 5], weight = [], qid = [], offset = [0, 1, 1], index = [1],
                value' = [1]\<rparr>)"
  by (rule comment_line_reaches_tokenizer; code_simp)

text \<open>
  The scenarios of the spec that hold on the code, with the scenario tokenizer: scenario A,
  scenario C (a leading comment line and an empty line contribute nothing) and scenario E.
\<close>

lemma scenario_A:
  "ParseBlock label_tokenizer feature_tokenizer 0 ''1 1:0.5 3:0.2\<newline>0 2:0.1\<newline>'' new_container =
    Some (Inr \<lparr>label = [1, 0], weight = [], qid = [], offset = [0, 2, 3], index = [1, 3, 2],
                value' = [1 / 2, 1 / 5, 1 / 10]\<rparr>)"
  by code_simp

lemma scenario_C:
  "ParseBlock label_tokenizer feature_tokenizer 0
     ''# just a comment\<newline>\<newline>1 1:1.0\<newline>'' new_container =
   ParseBlock label_tokenizer feature_tokenizer 0 ''1 1:1.0\<newline>'' new_container"
  by code_simp

lemma scenario_E:
  "ParseBlock label_tokenizer feature_tokenizer (- 1) ''1 1:0.5 3:0.2\<newline>0 2:0.1\<newline>'' new_container =
    Some (Inr \<lparr>label = [1, 0], weight = [], qid = [], offset = [0, 2, 3], index = [0, 2, 1],
                value' = [1 / 2, 1 / 5, 1 / 10]\<rparr>)"
  by code_simp

text \<open>
  Claim C1, where the code diverges. The pass never aborts on a weight or a query id that
  only some records carry: the member function has no such check (the draft state machine
  has, see \<open>draft_weight_check\<close>). Record 1 has a weight and record 2 has none; the pass
  completes, with one weight for two labels.
\<close>

theorem inconsistent_weight_accepted:
  "ParseBlock label_tokenizer feature_tokenizer 0 ''1:2 1:1\<newline>0 1:1\<newline>'' new_container =
    Some (Inr \<lparr>label = [1, 0], weight = [2], qid = [], offset = [0, 1, 2], index = [1, 1],
                value' = [1, 1]\<rparr>)"
  by code_simp

lemma inconsistent_qid_accepted:
  "ParseBlock label_tokenizer feature_tokenizer 0 ''1 qid:3 1:1\<newline>0 1:1\<newline>'' new_container =
    Some (Inr \<lparr>label = [1, 0], weight = [], qid = [3], offset = [0, 1, 2], index = [1, 1],
                value' = [1, 1]\<rparr>)"
  by code_simp

text \<open>
  Claim C2, where the code diverges. On the input of scenario D the pass completes: the
  token \<open>:extra\<close> yields a feature with one field, whose id is pushed without a value
  (line 249); there is no abort (the draft state machine has one, see
  \<open>draft_feature_check\<close>).
\<close>

theorem scenario_D_accepted:
  "ParseBlock label_tokenizer feature_tokenizer 0 ''1 1:0.5\<newline>2 1:0.3:extra\<newline>'' new_container =
    Some (Inr \<lparr>label = [1, 2], weight = [], qid = [], offset = [0, 1, 3], index = [1, 1, 0],
                value' = [1 / 2, 3 / 10]\<rparr>)"
  by code_simp

text \<open>
  Claim C3, where the code diverges. A feature token with an id and no value pushes on
  \<open>index\<close> and not on \<open>value\<close> (lines 247 to 252), so after a completed pass the two
  sequences can differ in length.
\<close>

theorem index_without_value:
  "ParseBlock label_tokenizer feature_tokenizer 0 ''1 2:0.5 7\<newline>'' new_container =
    Some (Inr \<lparr>label = [1], weight = [], qid = [], offset = [0, 2], index = [2, 7],
                value' = [1 / 2]\<rparr>)"
  by code_simp

text \<open>
  Claim C10, where the code diverges. The block is not a function of the byte range and the
  configuration alone: \<open>atoll\<close> at line 230 reads past \<open>end\<close>. The range is the line
  \<open>1 qid:\<close> with its newline; after \<open>qid:\<close> the position is at the newline, which
  \<open>atoll\<close> skips as white space, and the digits it then reads are the first bytes after the
  range. The same range gives the query id 7 when the bytes \<open>7 1:1\<close> follow it and the
  query id 8 when the bytes \<open>8 1:1\<close> follow it.
\<close>

theorem bytes_after_end_reach_qid:
  "ParseBlock_in label_tokenizer feature_tokenizer 0 ''1 qid:\<newline>'' ''7 1:1\<newline>'' new_container =
     Some (Inr \<lparr>label = [1], weight = [], qid = [7], offset = [0, 0], index = [],
                 value' = []\<rparr>)
   \<and> ParseBlock_in label_tokenizer feature_tokenizer 0 ''1 qid:\<newline>'' ''8 1:1\<newline>'' new_container =
     Some (Inr \<lparr>label = [1], weight = [], qid = [8], offset = [0, 0], index = [],
                 value' = []\<rparr>)"
  by code_simp

text \<open>The same range at the end of its buffer: no digit follows, and the query id is 0.\<close>

lemma no_bytes_after_end:
  "ParseBlock label_tokenizer feature_tokenizer 0 ''1 qid:\<newline>'' new_container =
     Some (Inr \<lparr>label = [1], weight = [], qid = [0], offset = [0, 0], index = [],
                 value' = []\<rparr>)"
  by code_simp

text \<open>
  When the bytes after the range complete the prefix \<open>qid:\<close>, the position passes the end
  of the line and the pass has no result.
\<close>

lemma qid_prefix_across_end:
  "ParseBlock_in label_tokenizer feature_tokenizer 0 ''1 q'' ''id:7'' new_container = None"
proof -
  let ?b = "\<lparr>label = [1], weight = [], qid = [7], offset = [0], index = [],
              value' = []\<rparr> :: (32 word, rat) RowBlockContainer"
  have q: "parse_qid_in ''1 q'' ''id:7'' 3 (0 + 2) (push_label 1 None (Clear new_container)) = (6, ?b)"
    by code_simp
  have f: "feature_loop feature_tokenizer ''1 q'' 3 6 ?b (- 1) = None"
  proof (cases "feature_loop feature_tokenizer ''1 q'' 3 6 ?b (- 1)")
    case (Some y)
    from feature_loop_past_line_end [OF this] show ?thesis by simp
  qed simp
  have n: "(0 = length ''1 q'') = False" by simp
  have e: "find_line_end (drop (0 + 1) ''1 q'') (0 + 1) = 3" by code_simp
  have p: "0 + IgnoreCommentAndBlank (byte_range ''1 q'' 0 3) = 0" by code_simp
  have l: "label_tokenizer (byte_range ''1 q'' 0 3) = OneField 2 1" by code_simp
  have "line_loop_in label_tokenizer feature_tokenizer ''1 q'' ''id:7'' 0 (Clear new_container) (- 1)
      = None"
    by (subst line_loop_in.simps)
      (simp only: n if_False Let_def e p l pair_result.case q prod.case f Option.bind.simps)
  then show ?thesis by (simp add: ParseBlock_in_def)
qed

text \<open>What the draft state machine does on the same records.\<close>

lemma draft_rejects_missing_weight: "draft_weight_check 1 kTrue = Inl WeightNotForAllRows"
  by (simp add: draft_weight_check_def)

lemma draft_rejects_late_weight: "draft_weight_check 2 kFalse = Inl WeightNotForAllRows"
  by (simp add: draft_weight_check_def)

lemma draft_rejects_missing_qid: "draft_qid_check False kTrue = Inl QidNotForAllRows"
  by (simp add: draft_qid_check_def)

lemma draft_rejects_incomplete_pair: "draft_feature_check 1 = Inl IncompletePair"
  by (simp add: draft_feature_check_def)

end
